theory Spec2Isabelle
  imports Main
begin

section \<open>Python values\<close>

text \<open>
  A Python \<open>str\<close> is a sequence of Unicode code points; the plugin's literals are mostly
  Chinese, so a string is modelled as the list of its code points. \<open>asc\<close> embeds an ASCII
  literal.
\<close>

type_synonym pystr = "nat list"

definition asc :: "string \<Rightarrow> pystr" where
  "asc s = map of_char s"

text \<open>
  The values \<open>json.loads\<close> produces (and the values the plugin configuration or the message
  context hold): \<open>None\<close>, booleans, integers, floats, strings, lists and dictionaries.
  A float is kept as sign, mantissa and exponent, or as one of the non-finite values that
  \<open>json.loads\<close> accepts. A dictionary is the list of its items.
\<close>

datatype pyfloat = Finite bool nat int | Infinity bool | NaN

datatype json =
    JNone
  | JBool bool
  | JInt int
  | JFloat pyfloat
  | JStr pystr
  | JList "json list"
  | JDict "(pystr \<times> json) list"

text \<open>Python's truth value of an object, as \<open>not x\<close> and \<open>if x\<close> test it.\<close>

fun py_truthy :: "json \<Rightarrow> bool" where
  "py_truthy JNone = False"
| "py_truthy (JBool b) = b"
| "py_truthy (JInt n) = (n \<noteq> 0)"
| "py_truthy (JFloat (Finite _ m _)) = (m \<noteq> 0)"
| "py_truthy (JFloat _) = True"
| "py_truthy (JStr s) = (s \<noteq> [])"
| "py_truthy (JList xs) = (xs \<noteq> [])"
| "py_truthy (JDict kvs) = (kvs \<noteq> [])"

text \<open>\<open>d.get(key, default)\<close> on a dictionary.\<close>

definition dict_get :: "(pystr \<times> json) list \<Rightarrow> pystr \<Rightarrow> json \<Rightarrow> json" where
  "dict_get d key dflt = (case map_of d key of None \<Rightarrow> dflt | Some v \<Rightarrow> v)"

text \<open>\<open>str(n)\<close> for an integer: its decimal digits, with a minus sign when negative.\<close>

fun str_nat :: "nat \<Rightarrow> pystr" where
  "str_nat n = (if n < 10 then [48 + n] else str_nat (n div 10) @ [48 + n mod 10])"

definition str_int :: "int \<Rightarrow> pystr" where
  "str_int k = (if k < 0 then 45 # str_nat (nat (- k)) else str_nat (nat k))"

section \<open>The like requester: \<open>send_like\<close>\<close>

text \<open>
  The string literals of \<open>send_like\<close>, by code point:
  \<^item> \<open>msg_network_error\<close>: U+7F51 U+7EDC U+8BF7 U+6C42 U+5F02 U+5E38 (network request exception);
  \<^item> \<open>msg_read_failed\<close>: U+8BFB U+53D6 U+54CD U+5E94 U+5931 U+8D25 (reading the response failed);
  \<^item> \<open>msg_parse_failed\<close>: U+54CD U+5E94 U+89E3 U+6790 U+5931 U+8D25 (parsing the response failed);
  \<^item> \<open>msg_unknown_prefix\<close>: U+672A U+77E5 U+9519 U+8BEF U+FF0C U+54CD U+5E94 U+5185 U+5BB9,
    colon, space (unknown error, response content: );
  \<^item> \<open>msg_cap_reached\<close>: U+5DF2 U+8FBE U+5230 U+5355 U+6B21 U+70B9 U+8D5E U+4E0A U+9650, the
    formatted cap, U+6B21 (the per-command cap was reached).
\<close>

definition times_per_request :: int where
  "times_per_request = 10"

definition max_total :: int where
  "max_total = 50"

definition msg_network_error :: pystr where
  "msg_network_error = [0x7F51, 0x7EDC, 0x8BF7, 0x6C42, 0x5F02, 0x5E38]"

definition msg_read_failed :: pystr where
  "msg_read_failed = [0x8BFB, 0x53D6, 0x54CD, 0x5E94, 0x5931, 0x8D25]"

definition msg_parse_failed :: pystr where
  "msg_parse_failed = [0x54CD, 0x5E94, 0x89E3, 0x6790, 0x5931, 0x8D25]"

definition msg_unknown_prefix :: pystr where
  "msg_unknown_prefix =
     [0x672A, 0x77E5, 0x9519, 0x8BEF, 0xFF0C, 0x54CD, 0x5E94, 0x5185, 0x5BB9, 0x3A, 0x20]"

definition msg_cap_reached :: pystr where
  "msg_cap_reached =
     [0x5DF2, 0x8FBE, 0x5230, 0x5355, 0x6B21, 0x70B9, 0x8D5E, 0x4E0A, 0x9650]
       @ str_int max_total @ [0x6B21]"

text \<open>
  One POST to the gateway ends in one of four ways, which are the four phases of the loop
  body: \<open>client.post\<close> raises; \<open>resp.text\<close> raises; \<open>resp.json()\<close> raises (the body text
  was read); or the body text was read and parsed to a value. The HTTP status code is only
  logged and is left out.
\<close>

datatype response =
    TransportError
  | Unreadable
  | Unparsable pystr
  | Parsed pystr json

text \<open>
  The request is the same on every iteration: base URL from host and port, the
  \<open>Authorization\<close> header only when the token is truthy, and the payload with the user
  identifier and \<open>times\<close>.
\<close>

record request =
  url_host :: json
  url_port :: json
  authorization :: "json option"
  payload_user_id :: json
  payload_times :: int

definition make_request :: "json \<Rightarrow> json \<Rightarrow> json \<Rightarrow> json \<Rightarrow> request" where
  "make_request user_id napcat_host napcat_port napcat_token =
     \<lparr> url_host = napcat_host,
       url_port = napcat_port,
       authorization = (if py_truthy napcat_token then Some napcat_token else None),
       payload_user_id = user_id,
       payload_times = times_per_request \<rparr>"

text \<open>
  The exceptions that leave \<open>send_like\<close>, both raised outside every \<open>try\<close>:
  \<open>httpx.InvalidURL\<close> when the client is built on a base URL that \<open>httpx\<close> rejects, and
  \<open>AttributeError\<close> from \<open>data_json.get\<close> on a parsed value that is not a dictionary.
\<close>

datatype py_exception = InvalidURL | AttributeError

text \<open>
  The \<open>while True\<close> loop. \<open>post i\<close> is the outcome of POST number \<open>i\<close> (counted from 0),
  \<open>count\<close> the accumulated count on entry. The result is the number of POSTs issued so far
  and either the exception raised or the values of \<open>count\<close> and \<open>failed_message\<close> at the
  \<open>break\<close>.
\<close>

function like_loop ::
  "(nat \<Rightarrow> response) \<Rightarrow> nat \<Rightarrow> int \<Rightarrow> nat \<times> (py_exception + int \<times> json)" where
  "like_loop post i count =
     (case post i of
        TransportError \<Rightarrow> (Suc i, Inr (count, JStr msg_network_error))
      | Unreadable \<Rightarrow> (Suc i, Inr (count, JStr msg_read_failed))
      | Unparsable text \<Rightarrow> (Suc i, Inr (count, JStr msg_parse_failed))
      | Parsed text data_json \<Rightarrow>
          (case data_json of
             JDict d \<Rightarrow>
               if dict_get d (asc ''status'') JNone \<noteq> JStr (asc ''ok'')
               then (Suc i, Inr (count,
                      if \<not> py_truthy (dict_get d (asc ''message'') JNone)
                      then JStr (msg_unknown_prefix @ text)
                      else dict_get d (asc ''message'') JNone))
               else if count + times_per_request \<ge> max_total
                 then (Suc i, Inr (count + times_per_request, JStr msg_cap_reached))
                 else like_loop post (Suc i) (count + times_per_request)
           | _ \<Rightarrow> (Suc i, Inl AttributeError)))"
  by pat_completeness auto
termination
  by (relation "measure (\<lambda>(post, i, count). nat (max_total - count))")
     (auto simp: times_per_request_def max_total_def)

declare like_loop.simps [simp del]

text \<open>
  \<open>send_like\<close>. Two things outside the repository are parameters of the model:
  \<open>url_ok host port\<close> says whether \<open>httpx.AsyncClient\<close> accepts the base URL formatted from
  host and port (if not, building the client raises before the loop, and no POST is
  issued); \<open>gateway\<close> gives for the request the outcome of each POST in turn. The result
  pairs the number of POSTs issued with the exception raised or the returned triple
  \<open>(success, count, failed_message)\<close>. Logging is left out.
\<close>

definition send_like ::
  "(json \<Rightarrow> json \<Rightarrow> bool) \<Rightarrow> (request \<Rightarrow> nat \<Rightarrow> response)
     \<Rightarrow> json \<Rightarrow> json \<Rightarrow> json \<Rightarrow> json
     \<Rightarrow> nat \<times> (py_exception + bool \<times> int \<times> json)" where
  "send_like url_ok gateway user_id napcat_host napcat_port napcat_token =
     (if \<not> url_ok napcat_host napcat_port then (0, Inl InvalidURL)
      else
        case like_loop (gateway (make_request user_id napcat_host napcat_port napcat_token)) 0 0 of
          (calls, Inl e) \<Rightarrow> (calls, Inl e)
        | (calls, Inr (count, failed_message)) \<Rightarrow>
            (calls, Inr (if count > 0 then (True, count, JStr [])
                         else (False, 0, failed_message))))"

text \<open>A reply whose body parsed to a dictionary with \<open>status\<close> equal to \<open>"ok"\<close>.\<close>

fun is_ok :: "response \<Rightarrow> bool" where
  "is_ok (Parsed text (JDict d)) = (dict_get d (asc ''status'') JNone = JStr (asc ''ok''))"
| "is_ok _ = False"

section \<open>The command handler: \<open>LikeCommand.execute\<close>\<close>

text \<open>
  The string literals of the handler, by code point:
  \<^item> \<open>msg_no_user_notice\<close>: U+65E0 U+6CD5 U+83B7 U+53D6 U+7528 U+6237, \<open>ID,\<close>, U+70B9 U+8D5E
    U+5931 U+8D25 (cannot get the user ID, like failed); \<open>msg_no_user\<close> is its first eight
    characters;
  \<^item> \<open>msg_config_notice\<close>: \<open>Napcat\<close>, U+670D U+52A1 U+914D U+7F6E U+4E0D U+5B8C U+6574, U+FF0C,
    U+70B9 U+8D5E U+5931 U+8D25 (Napcat service configuration incomplete, like failed);
    \<open>msg_config\<close> is the part before the comma;
  \<^item> \<open>target_prefix\<close>: U+4E3A, space (for);
  \<^item> \<open>msg_success_prefix\<close>: U+5DF2 U+6210 U+529F (succeeded); \<open>msg_like\<close>: U+70B9 U+8D5E, space
    (like); \<open>msg_times\<close>: space, U+6B21 (times);
  \<^item> \<open>msg_like_failed\<close>: U+70B9 U+8D5E U+5931 U+8D25, colon, space (like failed: );
  \<^item> \<open>msg_rewritten_sent\<close>: U+5DF2 U+53D1 U+9001 U+91CD U+5199 U+540E U+7684 U+70B9 U+8D5E U+56DE
    U+590D (sent the rewritten like reply);
  \<^item> \<open>msg_reply_sent\<close>: U+5DF2 U+53D1 U+9001 U+70B9 U+8D5E U+56DE U+590D (sent the like reply).
\<close>

definition msg_no_user_notice :: pystr where
  "msg_no_user_notice =
     [0x65E0, 0x6CD5, 0x83B7, 0x53D6, 0x7528, 0x6237] @ asc ''ID,''
       @ [0x70B9, 0x8D5E, 0x5931, 0x8D25]"

definition msg_no_user :: pystr where
  "msg_no_user = [0x65E0, 0x6CD5, 0x83B7, 0x53D6, 0x7528, 0x6237] @ asc ''ID''"

definition msg_config_notice :: pystr where
  "msg_config_notice =
     asc ''Napcat'' @ [0x670D, 0x52A1, 0x914D, 0x7F6E, 0x4E0D, 0x5B8C, 0x6574, 0xFF0C,
                       0x70B9, 0x8D5E, 0x5931, 0x8D25]"

definition msg_config :: pystr where
  "msg_config = asc ''Napcat'' @ [0x670D, 0x52A1, 0x914D, 0x7F6E, 0x4E0D, 0x5B8C, 0x6574]"

definition target_prefix :: pystr where
  "target_prefix = [0x4E3A, 0x20]"

definition msg_success_prefix :: pystr where
  "msg_success_prefix = [0x5DF2, 0x6210, 0x529F]"

definition msg_like :: pystr where
  "msg_like = [0x70B9, 0x8D5E, 0x20]"

definition msg_times :: pystr where
  "msg_times = [0x20, 0x6B21]"

definition msg_like_failed :: pystr where
  "msg_like_failed = [0x70B9, 0x8D5E, 0x5931, 0x8D25, 0x3A, 0x20]"

definition msg_rewritten_sent :: pystr where
  "msg_rewritten_sent =
     [0x5DF2, 0x53D1, 0x9001, 0x91CD, 0x5199, 0x540E, 0x7684, 0x70B9, 0x8D5E, 0x56DE, 0x590D]"

definition msg_reply_sent :: pystr where
  "msg_reply_sent = [0x5DF2, 0x53D1, 0x9001, 0x70B9, 0x8D5E, 0x56DE, 0x590D]"

text \<open>
  What the handler does to the outside world, in order: the two calls of the person lookup,
  the POSTs of \<open>send_like\<close>, a call of the rewriting service (with the raw reply and the
  \<open>enable_splitter\<close> setting), a text sent to the chat, and the pause after a rewritten
  segment.
\<close>

datatype event =
    GetPersonId pystr json
  | GetPersonValue pystr pystr
  | HttpPost request
  | RewriteReply pystr json
  | SendText pystr
  | Sleep

text \<open>
  What the host gives the handler: the user identifier of the incoming message, the plugin
  configuration (by dotted key), the person lookup, the rewriting service (result status
  and the contents of the reply segments), the acceptance of the base URL by \<open>httpx\<close>, and
  the gateway. \<open>env_py_str\<close> stands for Python's built-in formatting of a value that is
  not a string, which the failure reply applies to \<open>failed_message\<close>. The person lookup,
  the rewriting service and the sending of texts are taken to return.
\<close>

record env =
  env_user_id :: json
  env_config :: "pystr \<Rightarrow> json option"
  env_get_person_id :: "pystr \<Rightarrow> json \<Rightarrow> pystr"
  env_get_person_value :: "pystr \<Rightarrow> pystr \<Rightarrow> pystr option"
  env_rewrite_reply :: "pystr \<Rightarrow> json \<Rightarrow> bool \<times> pystr list"
  env_url_ok :: "json \<Rightarrow> json \<Rightarrow> bool"
  env_gateway :: "request \<Rightarrow> nat \<Rightarrow> response"
  env_py_str :: "json \<Rightarrow> pystr"

definition get_config :: "env \<Rightarrow> pystr \<Rightarrow> json \<Rightarrow> json" where
  "get_config e key dflt = (case env_config e key of None \<Rightarrow> dflt | Some v \<Rightarrow> v)"

definition format_value :: "env \<Rightarrow> json \<Rightarrow> pystr" where
  "format_value e v = (case v of JStr s \<Rightarrow> s | _ \<Rightarrow> env_py_str e v)"

text \<open>\<open>LikeCommand.reply\<close>: the events it causes and the string it returns.\<close>

definition reply :: "env \<Rightarrow> pystr \<Rightarrow> event list \<times> pystr" where
  "reply e raw_reply =
     (if py_truthy (get_config e (asc ''like_plugin.enable_rewrite_reply'') JNone)
      then
        (let enable_splitter = get_config e (asc ''enable_splitter.enable_splitter'') (JBool False)
         in case env_rewrite_reply e raw_reply enable_splitter of
              (result_status, reply_data) \<Rightarrow>
                if result_status
                then (RewriteReply raw_reply enable_splitter
                        # concat (map (\<lambda>send_data. [SendText send_data, Sleep]) reply_data),
                      msg_rewritten_sent)
                else ([RewriteReply raw_reply enable_splitter, SendText raw_reply],
                      msg_reply_sent))
      else ([SendText raw_reply], msg_reply_sent))"

text \<open>
  \<open>LikeCommand.execute\<close>: the events it causes, and the exception that escapes it or the
  returned triple \<open>(success, message, code)\<close>. The statements are in the order of the
  source: the person lookup comes before the test of the user identifier.
\<close>

definition execute :: "env \<Rightarrow> event list \<times> (py_exception + bool \<times> pystr \<times> int)" where
  "execute e =
     (let user_id = env_user_id e;
          person_id = env_get_person_id e (asc ''qq'') user_id;
          person_name = env_get_person_value e person_id (asc ''person_name'');
          lookups = [GetPersonId (asc ''qq'') user_id,
                     GetPersonValue person_id (asc ''person_name'')]
      in if \<not> py_truthy user_id
         then (lookups @ [SendText msg_no_user_notice], Inr (False, msg_no_user, 1))
         else
           (let napcat_host = get_config e (asc ''napcat.host'') JNone;
                napcat_port = get_config e (asc ''napcat.port'') JNone;
                napcat_token = get_config e (asc ''napcat.token'') (JStr [])
            in if \<not> py_truthy napcat_port \<or> \<not> py_truthy napcat_host
               then (lookups @ fst (reply e msg_config_notice), Inr (False, msg_config, 1))
               else
                 (let posts = (\<lambda>calls. replicate calls
                         (HttpPost (make_request user_id napcat_host napcat_port napcat_token)))
                  in case send_like (env_url_ok e) (env_gateway e)
                            user_id napcat_host napcat_port napcat_token of
                       (calls, Inl exn) \<Rightarrow> (lookups @ posts calls, Inl exn)
                     | (calls, Inr (success, count, failed_message)) \<Rightarrow>
                         (let target = (case person_name of
                                          None \<Rightarrow> []
                                        | Some name \<Rightarrow>
                                            if name \<noteq> [] then target_prefix @ name @ [0x20]
                                            else []);
                              raw_reply =
                                (if success
                                 then msg_success_prefix @ target @ msg_like
                                        @ str_int count @ msg_times
                                 else target @ msg_like_failed
                                        @ format_value e failed_message)
                          in case reply e raw_reply of
                               (sent, reply_result) \<Rightarrow>
                                 (lookups @ posts calls @ sent,
                                  Inr (success, raw_reply @ [0x20] @ reply_result, 1))))))"

section \<open>The trigger pattern: \<open>command_pattern\<close>\<close>

text \<open>
  The fragment of Python's regular expressions the pattern is written in: the anchors
  \<open>^\<close> and \<open>$\<close>, a literal character, concatenation, alternation \<open>|\<close>, the greedy
  optional \<open>?\<close>, and the empty expression. Groups only capture and are left to the
  structure of the term.
\<close>

datatype regex =
    Bol
  | Eol
  | Chr nat
  | Seq regex regex
  | Alt regex regex
  | Opt regex
  | Eps

fun lit :: "pystr \<Rightarrow> regex" where
  "lit [] = Eps"
| "lit (c # cs) = Seq (Chr c) (lit cs)"

text \<open>
  The backtracking matcher: from a position and the text that remains there, the list of
  positions where a match of the expression can end, in the order Python tries them.
  Without flags \<open>^\<close> holds only at position 0, and \<open>$\<close> holds at the end of the text and
  just before a newline that ends the text.
\<close>

fun rmatch :: "regex \<Rightarrow> nat \<times> pystr \<Rightarrow> (nat \<times> pystr) list" where
  "rmatch Bol (pos, rest) = (if pos = 0 then [(pos, rest)] else [])"
| "rmatch Eol (pos, rest) = (if rest = [] \<or> rest = [10] then [(pos, rest)] else [])"
| "rmatch (Chr c) (pos, rest) =
     (case rest of [] \<Rightarrow> [] | x # xs \<Rightarrow> if x = c then [(Suc pos, xs)] else [])"
| "rmatch (Seq r1 r2) st = concat (map (rmatch r2) (rmatch r1 st))"
| "rmatch (Alt r1 r2) st = rmatch r1 st @ rmatch r2 st"
| "rmatch (Opt r) st = rmatch r st @ [st]"
| "rmatch Eps st = [st]"

text \<open>\<open>re.match\<close> without flags: is there a match starting at the beginning of the text?\<close>

definition py_match :: "regex \<Rightarrow> pystr \<Rightarrow> bool" where
  "py_match r txt = (rmatch r (0, txt) \<noteq> [])"

text \<open>
  The two Chinese phrases of the pattern: U+8D5E U+6211 (like me) and
  U+9EA6 U+9EA6 U+8D5E U+6211 (MaiMai like me). Code point 47 is the slash, 35 the hash.
\<close>

definition zan_wo :: pystr where
  "zan_wo = [0x8D5E, 0x6211]"

definition maimai_zan_wo :: pystr where
  "maimai_zan_wo = [0x9EA6, 0x9EA6, 0x8D5E, 0x6211]"

text \<open>The body of the pattern, between the anchors, and the pattern itself.\<close>

definition command_body :: regex where
  "command_body =
     Alt (Seq (Alt (Chr 47) (Chr 35)) (lit (asc ''like'')))
         (Seq (Opt (Alt (Chr 47) (Chr 35))) (Alt (lit zan_wo) (lit maimai_zan_wo)))"

definition command_pattern :: regex where
  "command_pattern = Seq Bol (Seq command_body Eol)"

text \<open>The eight texts the pattern is built from.\<close>

definition trigger_texts :: "pystr list" where
  "trigger_texts =
     [asc ''/like'', asc ''#like'',
      47 # zan_wo, 35 # zan_wo, zan_wo,
      47 # maimai_zan_wo, 35 # maimai_zan_wo, maimai_zan_wo]"

text \<open>
  The texts an expression without anchors can consume, used to reason about the matcher.
\<close>

fun anchor_free :: "regex \<Rightarrow> bool" where
  "anchor_free Bol = False"
| "anchor_free Eol = False"
| "anchor_free (Chr c) = True"
| "anchor_free (Seq r1 r2) = (anchor_free r1 \<and> anchor_free r2)"
| "anchor_free (Alt r1 r2) = (anchor_free r1 \<and> anchor_free r2)"
| "anchor_free (Opt r) = anchor_free r"
| "anchor_free Eps = True"

fun lang :: "regex \<Rightarrow> pystr set" where
  "lang Bol = {[]}"
| "lang Eol = {[]}"
| "lang (Chr c) = {[c]}"
| "lang (Seq r1 r2) = (\<lambda>(u, v). u @ v) ` (lang r1 \<times> lang r2)"
| "lang (Alt r1 r2) = lang r1 \<union> lang r2"
| "lang (Opt r) = insert [] (lang r)"
| "lang Eps = {[]}"

section \<open>Sample inputs\<close>

text \<open>
  Sample gateway replies used to instantiate the theorems: body text and parsed value of
  \<^verbatim>\<open>{"status":"ok"}\<close> and of \<^verbatim>\<open>{"status":"failed","message":"busy"}\<close>.
\<close>

definition ok_reply :: response where
  "ok_reply =
     Parsed [123, 34, 115, 116, 97, 116, 117, 115, 34, 58, 34, 111, 107, 34, 125]
       (JDict [(asc ''status'', JStr (asc ''ok''))])"

definition busy_reply :: response where
  "busy_reply =
     Parsed [123, 34, 115, 116, 97, 116, 117, 115, 34, 58, 34, 102, 97, 105, 108, 101, 100, 34,
             44, 34, 109, 101, 115, 115, 97, 103, 101, 34, 58, 34, 98, 117, 115, 121, 34, 125]
       (JDict [(asc ''status'', JStr (asc ''failed'')), (asc ''message'', JStr (asc ''busy''))])"

text \<open>
  A reply whose body is \<^verbatim>\<open>null\<close>, and one whose message field is the number 0:
  \<^verbatim>\<open>{"status":"failed","message":0}\<close>.
\<close>

definition null_reply :: response where
  "null_reply = Parsed (asc ''null'') JNone"

definition zero_message_body :: pystr where
  "zero_message_body =
     [123, 34, 115, 116, 97, 116, 117, 115, 34, 58, 34, 102, 97, 105, 108, 101, 100, 34,
      44, 34, 109, 101, 115, 115, 97, 103, 101, 34, 58, 48, 125]"

definition zero_message_reply :: response where
  "zero_message_reply =
     Parsed zero_message_body
       (JDict [(asc ''status'', JStr (asc ''failed'')), (asc ''message'', JInt 0)])"

text \<open>
  A sample of what \<open>httpx\<close> accepts: every host but \<open>::1\<close>, whose base URL
  \<^verbatim>\<open>http://::1:9999\<close> it rejects.
\<close>

definition sample_url_ok :: "json \<Rightarrow> json \<Rightarrow> bool" where
  "sample_url_ok host port = (host \<noteq> JStr (asc ''::1''))"

text \<open>
  A sample host: the person lookup knows the name \<open>Mai\<close>, the rewriting service fails, and
  the gateway follows a script of replies whatever the request.
\<close>

definition sample_env :: "json \<Rightarrow> (pystr \<times> json) list \<Rightarrow> (nat \<Rightarrow> response) \<Rightarrow> env" where
  "sample_env uid cfg script =
     \<lparr> env_user_id = uid,
       env_config = map_of cfg,
       env_get_person_id = (\<lambda>platform u. asc ''p1''),
       env_get_person_value = (\<lambda>person_id field. Some (asc ''Mai'')),
       env_rewrite_reply = (\<lambda>raw_reply enable_splitter. (False, [])),
       env_url_ok = sample_url_ok,
       env_gateway = (\<lambda>req. script),
       env_py_str = (\<lambda>v. asc ''?'') \<rparr>"

definition full_config :: "(pystr \<times> json) list" where
  "full_config =
     [(asc ''napcat.host'', JStr (asc ''127.0.0.1'')),
      (asc ''napcat.port'', JInt 9999),
      (asc ''napcat.token'', JStr [])]"

text \<open>
  The same host with rewriting switched on in the configuration and a rewriting service that
  succeeds with the given segments.
\<close>

definition rewriting_env :: "json \<Rightarrow> (pystr \<times> json) list \<Rightarrow> pystr list \<Rightarrow> env" where
  "rewriting_env uid cfg segments =
     \<lparr> env_user_id = uid,
       env_config = map_of ((asc ''like_plugin.enable_rewrite_reply'', JBool True) # cfg),
       env_get_person_id = (\<lambda>platform u. asc ''p1''),
       env_get_person_value = (\<lambda>person_id field. Some (asc ''Mai'')),
       env_rewrite_reply = (\<lambda>raw_reply enable_splitter. (True, segments)),
       env_url_ok = sample_url_ok,
       env_gateway = (\<lambda>req i. ok_reply),
       env_py_str = (\<lambda>v. asc ''?'') \<rparr>"

definition all_ok_script :: "nat \<Rightarrow> response" where
  "all_ok_script i = ok_reply"

definition down_script :: "nat \<Rightarrow> response" where
  "down_script i = TransportError"

text \<open>Sample gateways, which answer every request alike.\<close>

definition all_ok_gateway :: "request \<Rightarrow> nat \<Rightarrow> response" where
  "all_ok_gateway req i = ok_reply"

definition busy_gateway :: "request \<Rightarrow> nat \<Rightarrow> response" where
  "busy_gateway req i = busy_reply"

definition null_gateway :: "request \<Rightarrow> nat \<Rightarrow> response" where
  "null_gateway req i = null_reply"

definition zero_message_gateway :: "request \<Rightarrow> nat \<Rightarrow> response" where
  "zero_message_gateway req i = zero_message_reply"

definition two_ok_gateway :: "request \<Rightarrow> nat \<Rightarrow> response" where
  "two_ok_gateway req i = (if i < 2 then ok_reply else Unreadable)"

section \<open>One iteration of the loop\<close>

lemma like_loop_transport:
  "post i = TransportError \<Longrightarrow> like_loop post i c = (Suc i, Inr (c, JStr msg_network_error))"
  by (subst like_loop.simps) simp

lemma like_loop_ok:
  assumes "is_ok (post i)"
  shows "like_loop post i c =
           (if c + 10 \<ge> 50 then (Suc i, Inr (c + 10, JStr msg_cap_reached))
            else like_loop post (Suc i) (c + 10))"
proof -
  from assms obtain body d where p: "post i = Parsed body (JDict d)"
    and ok: "dict_get d (asc ''status'') JNone = JStr (asc ''ok'')"
    by (cases "post i" rule: is_ok.cases) auto
  show ?thesis
    by (subst like_loop.simps) (simp add: p ok times_per_request_def max_total_def)
qed

lemma like_loop_unreadable:
  "post i = Unreadable \<Longrightarrow> like_loop post i c = (Suc i, Inr (c, JStr msg_read_failed))"
  by (subst like_loop.simps) simp

lemma like_loop_unparsable:
  "post i = Unparsable body \<Longrightarrow> like_loop post i c = (Suc i, Inr (c, JStr msg_parse_failed))"
  by (subst like_loop.simps) simp

lemma like_loop_not_dict:
  "post i = Parsed body v \<Longrightarrow> \<forall>d. v \<noteq> JDict d \<Longrightarrow> like_loop post i c = (Suc i, Inl AttributeError)"
  by (subst like_loop.simps) (cases v; simp)

lemma like_loop_not_ok:
  assumes "post i = Parsed body (JDict d)"
    and "dict_get d (asc ''status'') JNone \<noteq> JStr (asc ''ok'')"
  shows "like_loop post i c =
           (Suc i, Inr (c, if py_truthy (dict_get d (asc ''message'') JNone)
                           then dict_get d (asc ''message'') JNone
                           else JStr (msg_unknown_prefix @ body)))"
  using assms by (subst like_loop.simps) simp

text \<open>A run of \<open>k\<close> ok replies that stays below the cap carries the loop \<open>k\<close> iterations on.\<close>

lemma like_loop_oks:
  "\<forall>j<k. is_ok (post (i + j)) \<Longrightarrow> c + 10 * int k < 50 \<Longrightarrow>
     like_loop post i c = like_loop post (i + k) (c + 10 * int k)"
proof (induction k arbitrary: i c)
  case 0
  then show ?case by simp
next
  case (Suc k)
  from Suc.prems(1) have first: "is_ok (post i)"
    by (metis add.right_neutral zero_less_Suc)
  from Suc.prems(1) have rest: "\<forall>j<k. is_ok (post (Suc i + j))"
    by (metis Suc_less_eq add_Suc_shift)
  from Suc.prems(2) have below: "c + 10 + 10 * int k < 50" and cont: "\<not> 50 \<le> c + 10"
    by simp_all
  have "like_loop post i c = like_loop post (Suc i) (c + 10)"
    using like_loop_ok [of post i c] first cont by simp
  also have "\<dots> = like_loop post (Suc i + k) (c + 10 + 10 * int k)"
    by (rule Suc.IH [OF rest below])
  finally show ?case by (simp add: algebra_simps)
qed

text \<open>Every entry below the cap issues at least one POST, and at most as many as increments fit.\<close>

lemma like_loop_calls:
  "c < 50 \<Longrightarrow> i < fst (like_loop post i c) \<and> fst (like_loop post i c) \<le> i + nat ((59 - c) div 10)"
proof (induction post i c rule: like_loop.induct)
  case (1 post i count)
  have pos: "1 \<le> (59 - count) div 10"
    using "1.prems" by linarith
  show ?case
  proof (cases "post i")
    case TransportError
    then show ?thesis using pos by (simp add: like_loop_transport)
  next
    case Unreadable
    then show ?thesis using pos by (simp add: like_loop_unreadable)
  next
    case (Unparsable body)
    then show ?thesis using pos by (simp add: like_loop_unparsable)
  next
    case (Parsed body v)
    show ?thesis
    proof (cases "\<exists>d. v = JDict d")
      case False
      then show ?thesis using pos Parsed by (simp add: like_loop_not_dict)
    next
      case True
      then obtain d where v: "v = JDict d" by blast
      show ?thesis
      proof (cases "dict_get d (asc ''status'') JNone = JStr (asc ''ok'')")
        case False
        then show ?thesis using pos Parsed v by (simp add: like_loop_not_ok)
      next
        case ok: True
        then have step: "like_loop post i count =
            (if count + 10 \<ge> 50 then (Suc i, Inr (count + 10, JStr msg_cap_reached))
             else like_loop post (Suc i) (count + 10))"
          using Parsed v by (intro like_loop_ok) simp
        show ?thesis
        proof (cases "count + 10 \<ge> 50")
          case True
          then show ?thesis using pos step by simp
        next
          case False
          then have "Suc i < fst (like_loop post (Suc i) (count + times_per_request)) \<and>
              fst (like_loop post (Suc i) (count + times_per_request))
                \<le> Suc i + nat ((59 - (count + times_per_request)) div 10)"
            using "1.IH" [OF Parsed v] ok
            by (simp add: times_per_request_def max_total_def)
          moreover have "nat ((59 - (count + 10)) div 10) = nat ((59 - count) div 10) - 1"
            by linarith
          ultimately show ?thesis
            using False step pos by (simp add: times_per_request_def)
        qed
      qed
    qed
  qed
qed

text \<open>From a multiple of ten below the cap, the loop ends on a multiple of ten up to the cap.\<close>

lemma like_loop_count:
  "c mod 10 = 0 \<Longrightarrow> 0 \<le> c \<Longrightarrow> c < 50 \<Longrightarrow> snd (like_loop post i c) = Inr (c', fm) \<Longrightarrow>
     c' mod 10 = 0 \<and> c \<le> c' \<and> c' \<le> 50"
proof (induction post i c rule: like_loop.induct)
  case (1 post i count)
  show ?case
  proof (cases "is_ok (post i)")
    case True
    note step = like_loop_ok [of post i count, OF True]
    show ?thesis
    proof (cases "count + 10 \<ge> 50")
      case True
      with step "1.prems" show ?thesis by auto
    next
      case False
      from True obtain body d where p: "post i = Parsed body (JDict d)"
        and ok: "dict_get d (asc ''status'') JNone = JStr (asc ''ok'')"
        by (cases "post i" rule: is_ok.cases) auto
      have "c' mod 10 = 0 \<and> count + times_per_request \<le> c' \<and> c' \<le> 50"
        using "1.IH" [OF p refl] ok False "1.prems" step
        by (simp add: times_per_request_def max_total_def)
      then show ?thesis by (simp add: times_per_request_def)
    qed
  next
    case False
    have "snd (like_loop post i count) = Inl AttributeError \<or>
          (\<exists>m. snd (like_loop post i count) = Inr (count, m))"
    proof (cases "post i")
      case TransportError
      then show ?thesis by (simp add: like_loop_transport)
    next
      case Unreadable
      then show ?thesis by (simp add: like_loop_unreadable)
    next
      case (Unparsable body)
      then show ?thesis by (simp add: like_loop_unparsable)
    next
      case (Parsed body v)
      show ?thesis
      proof (cases "\<exists>d. v = JDict d")
        case False
        then show ?thesis using Parsed by (simp add: like_loop_not_dict)
      next
        case True
        then obtain d where v: "v = JDict d" by blast
        with False Parsed have "dict_get d (asc ''status'') JNone \<noteq> JStr (asc ''ok'')"
          by simp
        then show ?thesis using Parsed v by (simp add: like_loop_not_ok)
      qed
    qed
    with "1.prems" show ?thesis by auto
  qed
qed

lemma is_ok_ok_reply: "is_ok ok_reply"
  by (simp add: ok_reply_def dict_get_def)

section \<open>Properties of \<open>send_like\<close>\<close>

lemma sample_url_ok_local: "sample_url_ok (JStr (asc ''127.0.0.1'')) port"
  by (simp add: sample_url_ok_def asc_def)

text \<open>
  C6. When the very first POST raises a transport exception, \<open>send_like\<close> returns
  \<open>success = False\<close>, \<open>count = 0\<close> and the network-error message, after that one POST.
\<close>

theorem C6_first_call_transport_error:
  assumes "url_ok host port"
    and "gateway (make_request user_id host port token) 0 = TransportError"
  shows "send_like url_ok gateway user_id host port token
           = (1, Inr (False, 0, JStr msg_network_error))"
  using assms by (simp add: send_like_def like_loop_transport)

theorem C6_witness:
  "send_like sample_url_ok (\<lambda>req i. TransportError)
      (JInt 10001) (JStr (asc ''127.0.0.1'')) (JInt 9999) (JStr [])
     = (1, Inr (False, 0, JStr [0x7F51, 0x7EDC, 0x8BF7, 0x6C42, 0x5F02, 0x5E38]))"
  using C6_first_call_transport_error
          [of sample_url_ok "JStr (asc ''127.0.0.1'')" "JInt 9999"
              "\<lambda>req i. TransportError" "JInt 10001" "JStr []"]
  by (simp add: msg_network_error_def sample_url_ok_local)

text \<open>
  C1. When the first three POSTs are answered with status ok and the fourth raises a
  transport exception, \<open>send_like\<close> returns \<open>success = True\<close> with \<open>count = 30\<close> (and the
  empty message) after four POSTs: the later failure does not undo the accumulated count.
\<close>

theorem C1_partial_success_kept:
  assumes "url_ok host port"
    and "\<forall>j<3. is_ok (gateway (make_request user_id host port token) j)"
    and "gateway (make_request user_id host port token) 3 = TransportError"
  shows "send_like url_ok gateway user_id host port token = (4, Inr (True, 30, JStr []))"
proof -
  let ?post = "gateway (make_request user_id host port token)"
  have "like_loop ?post 0 0 = like_loop ?post (0 + 3) (0 + 10 * int 3)"
    using assms(2) by (intro like_loop_oks) simp_all
  also have "\<dots> = (4, Inr (30, JStr msg_network_error))"
    using like_loop_transport [of ?post 3 30] assms(3) by simp
  finally show ?thesis using assms(1) by (simp add: send_like_def)
qed

theorem C1_witness:
  "send_like sample_url_ok (\<lambda>req i. if i < 3 then ok_reply else TransportError)
      (JInt 10001) (JStr (asc ''127.0.0.1'')) (JInt 9999) (JStr [])
     = (4, Inr (True, 30, JStr []))"
  using C1_partial_success_kept
          [of sample_url_ok "JStr (asc ''127.0.0.1'')" "JInt 9999"
              "\<lambda>req i. if i < 3 then ok_reply else TransportError" "JInt 10001" "JStr []"]
  by (simp add: is_ok_ok_reply sample_url_ok_local)

text \<open>
  C2. When the POSTs are all answered with a JSON object whose status is ok (only the first
  five are ever looked at), the loop issues exactly five POSTs and stops with the count at
  50 and the cap-reached message; \<open>send_like\<close> returns \<open>success = True\<close>, \<open>count = 50\<close>.
\<close>

theorem C2_all_ok_reaches_cap:
  assumes "url_ok host port"
    and "\<forall>j<5. is_ok (gateway (make_request user_id host port token) j)"
  shows "like_loop (gateway (make_request user_id host port token)) 0 0
           = (5, Inr (50, JStr msg_cap_reached))
         \<and> send_like url_ok gateway user_id host port token = (5, Inr (True, 50, JStr []))"
proof -
  let ?post = "gateway (make_request user_id host port token)"
  have "like_loop ?post 0 0 = like_loop ?post (0 + 4) (0 + 10 * int 4)"
    using assms(2) by (intro like_loop_oks) simp_all
  also have "\<dots> = (5, Inr (50, JStr msg_cap_reached))"
    using like_loop_ok [of ?post 4 40] assms(2) by simp
  finally have "like_loop ?post 0 0 = (5, Inr (50, JStr msg_cap_reached))" .
  then show ?thesis using assms(1) by (simp add: send_like_def)
qed

theorem C2_witness:
  "send_like sample_url_ok all_ok_gateway
      (JInt 10001) (JStr (asc ''127.0.0.1'')) (JInt 9999) (JStr [])
     = (5, Inr (True, 50, JStr []))"
  using C2_all_ok_reaches_cap
          [of sample_url_ok "JStr (asc ''127.0.0.1'')" "JInt 9999"
              all_ok_gateway "JInt 10001" "JStr []"]
  by (simp add: is_ok_ok_reply sample_url_ok_local all_ok_gateway_def)

text \<open>
  C5, as stated, does not hold for every reply that parses as JSON. A body that parses to
  something other than an object, such as \<^verbatim>\<open>null\<close>, makes \<open>data_json.get\<close> raise an
  \<open>AttributeError\<close> that leaves \<open>send_like\<close>: no failure message is produced. And a message
  field that is present but falsy without being empty text, such as the number 0, is not
  used as the failure message: the fallback is.
\<close>

theorem C5_non_object_raises_and_falsy_message_falls_back:
  "send_like sample_url_ok null_gateway
      (JInt 10001) (JStr (asc ''127.0.0.1'')) (JInt 9999) (JStr [])
     = (1, Inl AttributeError)
   \<and> send_like sample_url_ok zero_message_gateway
      (JInt 10001) (JStr (asc ''127.0.0.1'')) (JInt 9999) (JStr [])
     = (1, Inr (False, 0, JStr (msg_unknown_prefix @ zero_message_body)))"
  by (simp add: send_like_def sample_url_ok_def null_gateway_def null_reply_def
        zero_message_gateway_def zero_message_reply_def
        like_loop_not_dict [of _ _ "asc ''null''" JNone]
        like_loop_not_ok [of _ _ zero_message_body
          "[(asc ''status'', JStr (asc ''failed'')), (asc ''message'', JInt 0)]"]
        dict_get_def asc_def)

text \<open>
  C5, amended. Let the first \<open>k\<close> POSTs be answered with status ok and POST \<open>k\<close> with a JSON
  object whose status is not the string ok (absent counts as not ok). Then the loop stops
  at that POST: \<open>k + 1\<close> POSTs are issued, the count stays at \<open>10 k\<close>, and \<open>failed_message\<close>
  is the reply's message field when that field is truthy, and otherwise (absent, or falsy:
  empty text, \<open>null\<close>, \<open>false\<close>, zero, an empty list or object) the fallback prefix followed
  by the raw body text. In particular a present, non-empty text is the failure message, and
  an absent or empty one gives the fallback. On the first call (\<open>k = 0\<close>) \<open>send_like\<close>
  returns \<open>success = False\<close>, \<open>count = 0\<close> with that message, whatever the message is; after
  earlier ok replies it returns the partial count.
\<close>

theorem C5_non_ok_object_stops:
  assumes "url_ok host port"
    and "post = gateway (make_request user_id host port token)"
    and "\<forall>j<k. is_ok (post j)" and "k < 5"
    and "post k = Parsed body (JDict d)"
    and "dict_get d (asc ''status'') JNone \<noteq> JStr (asc ''ok'')"
    and "failed_message =
           (if py_truthy (dict_get d (asc ''message'') JNone)
            then dict_get d (asc ''message'') JNone
            else JStr (msg_unknown_prefix @ body))"
  shows "like_loop post 0 0 = (Suc k, Inr (10 * int k, failed_message))
         \<and> (k = 0 \<longrightarrow>
              send_like url_ok gateway user_id host port token
                = (1, Inr (False, 0, failed_message)))
         \<and> (0 < k \<longrightarrow>
              send_like url_ok gateway user_id host port token
                = (Suc k, Inr (True, 10 * int k, JStr [])))
         \<and> (\<forall>v. map_of d (asc ''message'') = Some v \<and> py_truthy v \<longrightarrow> failed_message = v)
         \<and> (\<forall>v. map_of d (asc ''message'') = Some v \<and> \<not> py_truthy v
                \<longrightarrow> failed_message = JStr (msg_unknown_prefix @ body))
         \<and> (map_of d (asc ''message'') = None
                \<longrightarrow> failed_message = JStr (msg_unknown_prefix @ body))
         \<and> (\<forall>s. map_of d (asc ''message'') = Some (JStr s) \<and> s \<noteq> []
                \<longrightarrow> failed_message = JStr s)
         \<and> (map_of d (asc ''message'') = Some (JStr [])
                \<longrightarrow> failed_message = JStr (msg_unknown_prefix @ body))"
proof -
  have "like_loop post 0 0 = like_loop post (0 + k) (0 + 10 * int k)"
    using assms(3,4) by (intro like_loop_oks) simp_all
  also have "\<dots> = (Suc k, Inr (10 * int k, failed_message))"
    using like_loop_not_ok [of post k body d "10 * int k"] assms(5-7) by simp
  finally have loop: "like_loop post 0 0 = (Suc k, Inr (10 * int k, failed_message))" .
  have field: "(\<forall>v. map_of d (asc ''message'') = Some v \<and> py_truthy v \<longrightarrow> failed_message = v)
      \<and> (\<forall>v. map_of d (asc ''message'') = Some v \<and> \<not> py_truthy v
                \<longrightarrow> failed_message = JStr (msg_unknown_prefix @ body))
      \<and> (map_of d (asc ''message'') = None
                \<longrightarrow> failed_message = JStr (msg_unknown_prefix @ body))
      \<and> (\<forall>s. map_of d (asc ''message'') = Some (JStr s) \<and> s \<noteq> []
                \<longrightarrow> failed_message = JStr s)
      \<and> (map_of d (asc ''message'') = Some (JStr [])
                \<longrightarrow> failed_message = JStr (msg_unknown_prefix @ body))"
    using assms(7) by (auto simp: dict_get_def)
  from loop have "(k = 0 \<longrightarrow>
        send_like url_ok gateway user_id host port token = (1, Inr (False, 0, failed_message)))
      \<and> (0 < k \<longrightarrow>
        send_like url_ok gateway user_id host port token
          = (Suc k, Inr (True, 10 * int k, JStr [])))"
    unfolding send_like_def assms(2) [symmetric] using assms(1) by simp
  with loop field show ?thesis by blast
qed

theorem C5_witness:
  "send_like sample_url_ok busy_gateway
      (JInt 10001) (JStr (asc ''127.0.0.1'')) (JInt 9999) (JStr [])
     = (1, Inr (False, 0, JStr (asc ''busy'')))"
  using C5_non_ok_object_stops
          [of sample_url_ok "JStr (asc ''127.0.0.1'')" "JInt 9999"
              "busy_gateway (make_request (JInt 10001) (JStr (asc ''127.0.0.1'')) (JInt 9999) (JStr []))"
              busy_gateway "JInt 10001" "JStr []" 0
              "[123, 34, 115, 116, 97, 116, 117, 115, 34, 58, 34, 102, 97, 105, 108, 101, 100, 34,
                44, 34, 109, 101, 115, 115, 97, 103, 101, 34, 58, 34, 98, 117, 115, 121, 34, 125]"
              "[(asc ''status'', JStr (asc ''failed'')), (asc ''message'', JStr (asc ''busy''))]"
              "JStr (asc ''busy'')"]
  by (simp add: busy_gateway_def busy_reply_def dict_get_def asc_def sample_url_ok_def)

text \<open>
  C8, as stated, does not hold for every run: when \<open>httpx\<close> rejects the base URL formatted
  from host and port, building the client raises before the loop, and \<open>send_like\<close> ends
  without a single POST, whatever the gateway would have answered.
\<close>

theorem C8_no_call_on_rejected_url:
  "send_like sample_url_ok all_ok_gateway
      (JInt 10001) (JStr (asc ''::1'')) (JInt 9999) (JStr [])
     = (0, Inl InvalidURL)"
  by (simp add: send_like_def sample_url_ok_def)

text \<open>
  C8, amended. Whatever the gateway does on each POST (ok replies, non-ok replies,
  unreadable or unparsable bodies, bodies that parse to something other than an object,
  transport exceptions), \<open>send_like\<close> ends, having issued at most five POSTs; it has issued
  at least one whenever the client could be built on the base URL, and none otherwise.
  That it ends is the totality of \<open>like_loop\<close>, whose termination is proved from the count
  growing towards the cap.
\<close>

theorem C8_at_most_five_calls:
  "\<exists>calls outcome. send_like url_ok gateway user_id host port token = (calls, outcome)
     \<and> calls \<le> 5
     \<and> (url_ok host port \<longrightarrow> 1 \<le> calls)
     \<and> (\<not> url_ok host port \<longrightarrow> calls = 0)"
proof (cases "url_ok host port")
  case False
  then show ?thesis by (simp add: send_like_def)
next
  case True
  let ?post = "gateway (make_request user_id host port token)"
  have "0 < fst (like_loop ?post 0 0) \<and> fst (like_loop ?post 0 0) \<le> 0 + nat ((59 - 0) div 10)"
    by (rule like_loop_calls) simp
  then have "1 \<le> fst (like_loop ?post 0 0) \<and> fst (like_loop ?post 0 0) \<le> 5"
    by simp
  then show ?thesis
    using True by (auto simp: send_like_def split: prod.splits sum.splits)
qed

theorem C8_witness:
  "\<exists>calls outcome.
     send_like sample_url_ok two_ok_gateway
        (JInt 10001) (JStr (asc ''127.0.0.1'')) (JInt 9999) (JStr []) = (calls, outcome)
     \<and> 1 \<le> calls \<and> calls \<le> 5"
  using C8_at_most_five_calls
          [of sample_url_ok two_ok_gateway "JInt 10001" "JStr (asc ''127.0.0.1'')"
              "JInt 9999" "JStr []"]
  by (auto simp: sample_url_ok_local)

text \<open>
  C9. Whenever \<open>send_like\<close> returns a triple, \<open>success\<close> holds exactly when \<open>count > 0\<close>,
  \<open>count\<close> is a multiple of 10 between 0 and 50, and with \<open>success\<close> the returned message
  is the empty string, so the cap-reached message of the loop is never returned.
\<close>

theorem C9_outcome_invariant:
  assumes "send_like url_ok gateway user_id host port token
             = (calls, Inr (success, count, failed_message))"
  shows "(success \<longleftrightarrow> count > 0) \<and> count mod 10 = 0 \<and> 0 \<le> count \<and> count \<le> 50
         \<and> (success \<longrightarrow> failed_message = JStr [])"
proof -
  let ?post = "gateway (make_request user_id host port token)"
  from assms obtain c fm where loop: "snd (like_loop ?post 0 0) = Inr (c, fm)"
    and out: "(success, count, failed_message)
                = (if c > 0 then (True, c, JStr []) else (False, 0, fm))"
    by (auto simp: send_like_def split: if_splits prod.splits sum.splits)
  have "c mod 10 = 0 \<and> 0 \<le> c \<and> c \<le> 50"
    using like_loop_count [of 0 ?post 0 c fm] loop by simp
  with out show ?thesis
    by (auto split: if_splits)
qed

theorem C9_witness:
  "send_like sample_url_ok two_ok_gateway
      (JInt 10001) (JStr (asc ''127.0.0.1'')) (JInt 9999) (JStr [])
     = (3, Inr (True, 20, JStr []))
   \<and> (True \<longleftrightarrow> (20::int) > 0) \<and> (20::int) mod 10 = 0 \<and> (0::int) \<le> 20 \<and> (20::int) \<le> 50"
proof -
  have run: "send_like sample_url_ok two_ok_gateway
      (JInt 10001) (JStr (asc ''127.0.0.1'')) (JInt 9999) (JStr [])
     = (3, Inr (True, 20, JStr []))"
    by (simp add: send_like_def sample_url_ok_def two_ok_gateway_def
          like_loop.simps [of _ 0] like_loop.simps [of _ 1]
          like_loop.simps [of _ 2] like_loop.simps [of _ "Suc 0"] like_loop.simps [of _ "Suc (Suc 0)"]
          ok_reply_def dict_get_def asc_def times_per_request_def max_total_def)
  from C9_outcome_invariant [OF run] run show ?thesis by simp
qed

section \<open>Properties of the command handler\<close>

text \<open>\<open>reply\<close> never posts to the gateway.\<close>

lemma reply_no_post: "HttpPost req \<notin> set (fst (reply e raw_reply))"
  by (auto simp: reply_def Let_def split: prod.splits)

lemma execute_no_user:
  assumes "\<not> py_truthy (env_user_id e)"
  shows "execute e =
           ([GetPersonId (asc ''qq'') (env_user_id e),
             GetPersonValue (env_get_person_id e (asc ''qq'') (env_user_id e)) (asc ''person_name''),
             SendText msg_no_user_notice],
            Inr (False, msg_no_user, 1))"
  using assms by (simp add: execute_def Let_def)

lemma execute_no_config:
  assumes "py_truthy (env_user_id e)"
    and "\<not> py_truthy (get_config e (asc ''napcat.host'') JNone)
         \<or> \<not> py_truthy (get_config e (asc ''napcat.port'') JNone)"
  shows "execute e =
           ([GetPersonId (asc ''qq'') (env_user_id e),
             GetPersonValue (env_get_person_id e (asc ''qq'') (env_user_id e)) (asc ''person_name'')]
              @ fst (reply e msg_config_notice),
            Inr (False, msg_config, 1))"
  using assms by (auto simp: execute_def Let_def)

lemma asc_Nil: "asc s = [] \<longleftrightarrow> s = []"
  by (simp add: asc_def)

lemma sample_env_simps:
  "env_user_id (sample_env uid cfg script) = uid"
  "env_get_person_id (sample_env uid cfg script) platform u = asc ''p1''"
  "env_get_person_value (sample_env uid cfg script) pid field = Some (asc ''Mai'')"
  "env_gateway (sample_env uid cfg script) = (\<lambda>req. script)"
  "env_url_ok (sample_env uid cfg script) = sample_url_ok"
  "env_rewrite_reply (sample_env uid cfg script) raw sp = (False, [])"
  "get_config (sample_env uid cfg script) key dflt
     = (case map_of cfg key of None \<Rightarrow> dflt | Some v \<Rightarrow> v)"
  by (simp_all add: sample_env_def get_config_def)

lemma rewriting_env_simps:
  "env_user_id (rewriting_env uid cfg segments) = uid"
  "env_get_person_id (rewriting_env uid cfg segments) platform u = asc ''p1''"
  "env_rewrite_reply (rewriting_env uid cfg segments) raw sp = (True, segments)"
  "get_config (rewriting_env uid cfg segments) key dflt
     = (case map_of ((asc ''like_plugin.enable_rewrite_reply'', JBool True) # cfg) key of
          None \<Rightarrow> dflt | Some v \<Rightarrow> v)"
  by (simp_all add: rewriting_env_def get_config_def)

lemma full_config_simps:
  "map_of full_config (asc ''napcat.host'') = Some (JStr (asc ''127.0.0.1''))"
  "map_of full_config (asc ''napcat.port'') = Some (JInt 9999)"
  "map_of full_config (asc ''napcat.token'') = Some (JStr [])"
  "map_of full_config (asc ''like_plugin.enable_rewrite_reply'') = None"
  by (simp_all add: full_config_def asc_def)

text \<open>
  C3, as stated, does not hold: for a message without a user identifier (\<open>None\<close>) the
  handler has already performed both calls of the person lookup when it tests the
  identifier; the lookup is the first thing in its trace.
\<close>

theorem C3_lookup_precedes_user_check:
  "\<not> py_truthy (env_user_id (sample_env JNone full_config all_ok_script))
   \<and> fst (execute (sample_env JNone full_config all_ok_script))
       = [GetPersonId (asc ''qq'') JNone, GetPersonValue (asc ''p1'') (asc ''person_name''),
          SendText msg_no_user_notice]"
  by (simp add: execute_no_user sample_env_simps)

text \<open>
  C3, amended. For every message whose user identifier is missing (falsy), the handler
  performs the person lookup, then sends the failure notice and returns failure with code 1;
  it reads no gateway configuration, makes no HTTP call and calls no rewriting service.
\<close>

theorem C3_missing_user_id:
  assumes "\<not> py_truthy (env_user_id e)"
  shows "execute e =
           ([GetPersonId (asc ''qq'') (env_user_id e),
             GetPersonValue (env_get_person_id e (asc ''qq'') (env_user_id e)) (asc ''person_name''),
             SendText msg_no_user_notice],
            Inr (False, msg_no_user, 1))"
  using assms by (rule execute_no_user)

theorem C3_witness:
  "execute (sample_env (JStr []) full_config all_ok_script) =
     ([GetPersonId (asc ''qq'') (JStr []), GetPersonValue (asc ''p1'') (asc ''person_name''),
       SendText msg_no_user_notice],
      Inr (False, msg_no_user, 1))"
  using C3_missing_user_id [of "sample_env (JStr []) full_config all_ok_script"]
  by (simp add: sample_env_simps)

text \<open>
  What \<open>reply\<close> sends, by the three ways through it: the raw text when rewriting is
  disabled, and when it is enabled but the rewriting service fails; the segments of the
  rewriting service, each followed by a pause, when it succeeds.
\<close>

lemma reply_rewrite_off:
  "\<not> py_truthy (get_config e (asc ''like_plugin.enable_rewrite_reply'') JNone) \<Longrightarrow>
     reply e raw_reply = ([SendText raw_reply], msg_reply_sent)"
  by (simp add: reply_def)

lemma reply_rewrite_failed:
  "py_truthy (get_config e (asc ''like_plugin.enable_rewrite_reply'') JNone) \<Longrightarrow>
   env_rewrite_reply e raw_reply
     (get_config e (asc ''enable_splitter.enable_splitter'') (JBool False)) = (False, segments) \<Longrightarrow>
     reply e raw_reply =
       ([RewriteReply raw_reply
           (get_config e (asc ''enable_splitter.enable_splitter'') (JBool False)),
         SendText raw_reply],
        msg_reply_sent)"
  by (simp add: reply_def Let_def)

lemma reply_rewrite_succeeded:
  "py_truthy (get_config e (asc ''like_plugin.enable_rewrite_reply'') JNone) \<Longrightarrow>
   env_rewrite_reply e raw_reply
     (get_config e (asc ''enable_splitter.enable_splitter'') (JBool False)) = (True, segments) \<Longrightarrow>
     reply e raw_reply =
       (RewriteReply raw_reply
           (get_config e (asc ''enable_splitter.enable_splitter'') (JBool False))
          # concat (map (\<lambda>send_data. [SendText send_data, Sleep]) segments),
        msg_rewritten_sent)"
  by (simp add: reply_def Let_def)

text \<open>
  C7, as stated, does not hold: the configuration-error notice is handed to \<open>reply\<close>, and
  with rewriting enabled and the rewriting service succeeding, what is sent is the segments
  of the service, not the notice. Here the user identifier is present, the host is not
  configured, and the service succeeds with no segment: nothing at all is sent.
\<close>

theorem C7_rewritten_notice_not_sent:
  "py_truthy (env_user_id (rewriting_env (JInt 10001) [] []))
   \<and> \<not> py_truthy (get_config (rewriting_env (JInt 10001) [] []) (asc ''napcat.host'') JNone)
   \<and> execute (rewriting_env (JInt 10001) [] [])
       = ([GetPersonId (asc ''qq'') (JInt 10001),
           GetPersonValue (asc ''p1'') (asc ''person_name''),
           RewriteReply msg_config_notice (JBool False)],
          Inr (False, msg_config, 1))"
  by (simp add: execute_no_config reply_rewrite_succeeded [where segments = "[]"]
        rewriting_env_simps asc_def)

text \<open>
  C7, amended. For every invocation whose message carries a user identifier and in which
  the configured gateway host or port is missing (falsy), the handler makes no HTTP call,
  returns failure with the configuration-error message and code 1, and hands the
  configuration-error notice to \<open>reply\<close>: with rewriting disabled, and with rewriting
  enabled but failing, the notice itself is sent; with rewriting enabled and succeeding,
  the segments of the rewriting service (possibly none) are sent in its place.
\<close>

theorem C7_missing_gateway_config:
  assumes "py_truthy (env_user_id e)"
    and "\<not> py_truthy (get_config e (asc ''napcat.host'') JNone)
         \<or> \<not> py_truthy (get_config e (asc ''napcat.port'') JNone)"
    and "lookups =
           [GetPersonId (asc ''qq'') (env_user_id e),
            GetPersonValue (env_get_person_id e (asc ''qq'') (env_user_id e)) (asc ''person_name'')]"
    and "enable_splitter = get_config e (asc ''enable_splitter.enable_splitter'') (JBool False)"
  shows "(\<forall>req. HttpPost req \<notin> set (fst (execute e)))
     \<and> snd (execute e) = Inr (False, msg_config, 1)
     \<and> (\<not> py_truthy (get_config e (asc ''like_plugin.enable_rewrite_reply'') JNone) \<longrightarrow>
          fst (execute e) = lookups @ [SendText msg_config_notice])
     \<and> (\<forall>segments.
          py_truthy (get_config e (asc ''like_plugin.enable_rewrite_reply'') JNone)
          \<and> env_rewrite_reply e msg_config_notice enable_splitter = (False, segments) \<longrightarrow>
          fst (execute e)
            = lookups @ [RewriteReply msg_config_notice enable_splitter,
                         SendText msg_config_notice])
     \<and> (\<forall>segments.
          py_truthy (get_config e (asc ''like_plugin.enable_rewrite_reply'') JNone)
          \<and> env_rewrite_reply e msg_config_notice enable_splitter = (True, segments) \<longrightarrow>
          fst (execute e)
            = lookups @ RewriteReply msg_config_notice enable_splitter
                # concat (map (\<lambda>send_data. [SendText send_data, Sleep]) segments))"
proof -
  note run = execute_no_config [OF assms(1,2)]
  have posts: "\<forall>req. HttpPost req \<notin> set (fst (execute e))"
    by (simp add: run reply_no_post)
  have result: "snd (execute e) = Inr (False, msg_config, 1)"
    by (simp add: run)
  have off: "\<not> py_truthy (get_config e (asc ''like_plugin.enable_rewrite_reply'') JNone) \<longrightarrow>
      fst (execute e) = lookups @ [SendText msg_config_notice]"
    by (simp add: run reply_rewrite_off assms(3))
  have failed: "\<forall>segments.
      py_truthy (get_config e (asc ''like_plugin.enable_rewrite_reply'') JNone)
      \<and> env_rewrite_reply e msg_config_notice enable_splitter = (False, segments) \<longrightarrow>
      fst (execute e)
        = lookups @ [RewriteReply msg_config_notice enable_splitter, SendText msg_config_notice]"
    unfolding assms(4) by (auto simp: run reply_rewrite_failed assms(3))
  have succeeded: "\<forall>segments.
      py_truthy (get_config e (asc ''like_plugin.enable_rewrite_reply'') JNone)
      \<and> env_rewrite_reply e msg_config_notice enable_splitter = (True, segments) \<longrightarrow>
      fst (execute e)
        = lookups @ RewriteReply msg_config_notice enable_splitter
            # concat (map (\<lambda>send_data. [SendText send_data, Sleep]) segments)"
    unfolding assms(4) by (auto simp: run reply_rewrite_succeeded assms(3))
  from posts result off failed succeeded show ?thesis by blast
qed

theorem C7_witness:
  "execute (sample_env (JInt 10001) [(asc ''napcat.host'', JStr (asc ''127.0.0.1''))] all_ok_script)
     = ([GetPersonId (asc ''qq'') (JInt 10001), GetPersonValue (asc ''p1'') (asc ''person_name''),
         SendText msg_config_notice],
        Inr (False, msg_config, 1))
   \<and> execute (rewriting_env (JInt 10001) [(asc ''napcat.port'', JInt 9999)] [asc ''a'', asc ''b''])
     = ([GetPersonId (asc ''qq'') (JInt 10001), GetPersonValue (asc ''p1'') (asc ''person_name''),
         RewriteReply msg_config_notice (JBool False),
         SendText (asc ''a''), Sleep, SendText (asc ''b''), Sleep],
        Inr (False, msg_config, 1))"
proof -
  have off: "execute (sample_env (JInt 10001) [(asc ''napcat.host'', JStr (asc ''127.0.0.1''))]
                all_ok_script)
     = ([GetPersonId (asc ''qq'') (JInt 10001), GetPersonValue (asc ''p1'') (asc ''person_name''),
         SendText msg_config_notice],
        Inr (False, msg_config, 1))"
    using C7_missing_gateway_config
            [of "sample_env (JInt 10001) [(asc ''napcat.host'', JStr (asc ''127.0.0.1''))]
                   all_ok_script",
             OF _ _ refl refl]
    by (simp add: sample_env_simps asc_def prod_eq_iff)
  have on: "execute (rewriting_env (JInt 10001) [(asc ''napcat.port'', JInt 9999)]
               [asc ''a'', asc ''b''])
     = ([GetPersonId (asc ''qq'') (JInt 10001), GetPersonValue (asc ''p1'') (asc ''person_name''),
         RewriteReply msg_config_notice (JBool False),
         SendText (asc ''a''), Sleep, SendText (asc ''b''), Sleep],
        Inr (False, msg_config, 1))"
    using C7_missing_gateway_config
            [of "rewriting_env (JInt 10001) [(asc ''napcat.port'', JInt 9999)]
                   [asc ''a'', asc ''b'']",
             OF _ _ refl refl]
    by (simp add: rewriting_env_simps asc_def prod_eq_iff)
  from off on show ?thesis by simp
qed

lemma send_like_down:
  "url_ok host port \<Longrightarrow>
     send_like url_ok (\<lambda>req. down_script) user_id host port token
       = (1, Inr (False, 0, JStr msg_network_error))"
  by (simp add: send_like_def like_loop_transport down_script_def)

lemma execute_sample_down:
  "execute (sample_env (JInt 10001) full_config down_script) =
     ([GetPersonId (asc ''qq'') (JInt 10001), GetPersonValue (asc ''p1'') (asc ''person_name''),
       HttpPost (make_request (JInt 10001) (JStr (asc ''127.0.0.1'')) (JInt 9999) (JStr [])),
       SendText (target_prefix @ asc ''Mai'' @ [0x20] @ msg_like_failed @ msg_network_error)],
      Inr (False,
           target_prefix @ asc ''Mai'' @ [0x20] @ msg_like_failed @ msg_network_error
             @ [0x20] @ msg_reply_sent,
           1))"
  by (simp add: execute_def Let_def sample_env_simps full_config_simps reply_def
        format_value_def asc_Nil send_like_down sample_url_ok_local)

text \<open>
  C10. Whenever \<open>execute\<close> returns a triple (on the missing-user path, the
  missing-configuration path, and after \<open>send_like\<close> succeeded or failed), its third
  component is 1.
\<close>

theorem C10_code_is_one:
  assumes "execute e = (trace, Inr (success, message, code))"
  shows "code = 1"
  using assms
  by (auto simp: execute_def Let_def split: if_splits prod.splits sum.splits)

theorem C10_witness:
  "\<exists>trace message.
     execute (sample_env (JInt 10001) full_config down_script) = (trace, Inr (False, message, 1))"
  using C10_code_is_one [OF execute_sample_down] execute_sample_down by simp

section \<open>Properties of the trigger pattern\<close>

text \<open>
  For an expression without anchors the matcher ends exactly after the prefixes of the
  remaining text that lie in the language of the expression.
\<close>

lemma rmatch_lang:
  "anchor_free r \<Longrightarrow>
     set (rmatch r (pos, rest))
       = {(pos + length w, rest') | w rest'. w \<in> lang r \<and> rest = w @ rest'}"
proof (induction r arbitrary: pos rest)
  case (Chr c)
  show ?case by (cases rest) auto
next
  case (Seq r1 r2)
  then have a: "anchor_free r1" and b: "anchor_free r2" by simp_all
  show ?case
    apply (simp add: Seq.IH(1) [OF a])
    apply (auto simp: Seq.IH(2) [OF b])
     apply force
    apply force
    done
next
  case (Alt r1 r2)
  then show ?case by auto
next
  case (Opt r)
  then show ?case by auto
qed simp_all

lemma lang_lit: "lang (lit w) = {w}"
  by (induction w) auto

lemma anchor_free_lit: "anchor_free (lit w)"
  by (induction w) auto

lemma rmatch_Eol: "rmatch Eol st \<noteq> [] \<longleftrightarrow> snd st = [] \<or> snd st = [10]"
  by (cases st) simp

lemma lang_command_body: "lang command_body = set trigger_texts"
  by (auto simp: command_body_def lang_lit trigger_texts_def asc_def)

lemma anchor_free_command_body: "anchor_free command_body"
  by (simp add: command_body_def anchor_free_lit)

text \<open>
  C4, as stated, does not hold: the bare text \<open>like\<close> is not matched, because the first
  alternative of the pattern requires a slash or a hash before \<open>like\<close>.
\<close>

theorem C4_bare_like_not_matched: "\<not> py_match command_pattern (asc ''like'')"
  by (simp add: py_match_def command_pattern_def command_body_def asc_def
        zan_wo_def maimai_zan_wo_def)

text \<open>
  C4, amended. The pattern matches exactly the eight texts \<open>/like\<close>, \<open>#like\<close>, and the two
  Chinese phrases each bare or with a leading slash or hash, and, by the meaning of \<open>$\<close>,
  each of these followed by one final newline. No other text is matched.
\<close>

theorem C4_matched_texts:
  "py_match command_pattern txt \<longleftrightarrow>
     txt \<in> set trigger_texts \<or> (\<exists>u \<in> set trigger_texts. txt = u @ [10])"
proof -
  have "py_match command_pattern txt \<longleftrightarrow>
          (\<exists>st \<in> set (rmatch command_body (0, txt)). snd st = [] \<or> snd st = [10])"
    by (simp add: py_match_def command_pattern_def rmatch_Eol del: rmatch.simps(2))
  also have "\<dots> \<longleftrightarrow> (\<exists>w \<in> lang command_body. txt = w \<or> txt = w @ [10])"
    unfolding rmatch_lang [OF anchor_free_command_body] by fastforce
  finally show ?thesis
    unfolding lang_command_body by auto
qed

theorem C4_witness:
  "py_match command_pattern (asc ''/like'') \<and> \<not> py_match command_pattern (asc ''/likes'')"
  using C4_matched_texts [of "asc ''/like''"] C4_matched_texts [of "asc ''/likes''"]
  by (simp add: trigger_texts_def asc_def zan_wo_def maimai_zan_wo_def)


end
